theory Spec2Isabelle
  imports Complex_Main "HOL-Library.AList" "HOL-Library.Product_Lexorder"
begin

section \<open>Exceptions\<close>

text \<open>
  The exceptions of \<^verbatim>\<open>run_yahoo.py\<close> that derive from Python's \<^verbatim>\<open>Exception\<close>.
  \<^verbatim>\<open>decimal.DivisionUndefined\<close> (0 / 0) is a subclass of \<^verbatim>\<open>InvalidOperation\<close> and is
  represented by it. \<open>OtherError\<close> stands for whatever the data-source client raises
  (transport and parse errors), tagged with its class name.
\<close>

datatype exn = InvalidOperation | DivisionByZero | ValueError | OtherError string

definition bindE :: "exn + 'a \<Rightarrow> ('a \<Rightarrow> exn + 'b) \<Rightarrow> exn + 'b" where
  "bindE r f = (case r of Inl e \<Rightarrow> Inl e | Inr v \<Rightarrow> f v)"

section \<open>Python's \<^verbatim>\<open>decimal.Decimal\<close> under the default context\<close>

text \<open>
  A \<^verbatim>\<open>Decimal\<close> is modelled by its value: a finite rational, a signed infinity
  (\<open>Infinity True\<close> is \<open>-Infinity\<close>) or a NaN (\<open>NaN True\<close> is the signalling one). The
  default context has precision 28, rounding \<^verbatim>\<open>ROUND_HALF_EVEN\<close> and traps
  \<^verbatim>\<open>InvalidOperation\<close>, \<^verbatim>\<open>DivisionByZero\<close> and \<^verbatim>\<open>Overflow\<close>. Not modelled: the sign of a
  zero and the trailing zeros of a coefficient (neither changes a comparison or a
  truth value), and the exponent limits \<open>Emax = 999999\<close>, \<open>Emin = -999999\<close>, which no
  value read from a binary64 cell comes near.
\<close>

datatype dec = Fin rat | Infinity bool | NaN bool

definition pow10 :: "int \<Rightarrow> rat" where
  "pow10 e = (if 0 \<le> e then 10 ^ nat e else 1 / 10 ^ nat (- e))"

definition round_half_even :: "rat \<Rightarrow> int" where
  "round_half_even x =
     (let f = \<lfloor>x\<rfloor>; d = x - of_int f
      in if d < 1 / 2 then f else if 1 / 2 < d then f + 1
         else if even f then f else f + 1)"

text \<open>\<open>ndigits b n\<close> is the number of digits of \<open>n > 0\<close> in base \<open>b\<close>.\<close>

function ndigits :: "int \<Rightarrow> int \<Rightarrow> int" where
  "ndigits b n = (if b \<le> 1 \<or> n \<le> 0 then 0 else 1 + ndigits b (n div b))"
  by pat_completeness auto
termination
proof (relation "measure (\<lambda>(b, n). nat n)")
  show "wf (measure (\<lambda>(b, n). nat n))"
    by simp
next
  fix b n :: int
  assume "\<not> (b \<le> 1 \<or> n \<le> 0)"
  then have "1 < b" and "0 < n"
    by simp_all
  then have "n div b < n"
    by (simp add: int_div_less_self)
  moreover have "0 \<le> n div b"
    using \<open>1 < b\<close> \<open>0 < n\<close> by (simp add: pos_imp_zdiv_nonneg_iff)
  ultimately show "((b, n div b), (b, n)) \<in> measure (\<lambda>(b, n). nat n)"
    using \<open>0 < n\<close> by simp
qed

declare ndigits.simps [simp del]

text \<open>\<open>adjusted x\<close> is the exponent of the leading digit of \<open>x \<noteq> 0\<close>: \<open>\<lfloor>log\<^sub>1\<^sub>0 \<bar>x\<bar>\<rfloor>\<close>.\<close>

definition adjusted :: "rat \<Rightarrow> int" where
  "adjusted x =
     (let (p, q) = quotient_of \<bar>x\<bar>;
          e = ndigits 10 p - ndigits 10 q
      in if pow10 e \<le> \<bar>x\<bar> then e else e - 1)"

text \<open>\<open>rescale e x\<close> rounds \<open>x\<close> half-even to a multiple of \<open>10\<^sup>e\<close>.\<close>

definition rescale :: "int \<Rightarrow> rat \<Rightarrow> rat" where
  "rescale e x = of_int (round_half_even (x / pow10 e)) * pow10 e"

text \<open>The context's rounding of an exact result to 28 significant digits.\<close>

definition ctx_round :: "rat \<Rightarrow> rat" where
  "ctx_round x = (if x = 0 then 0 else rescale (adjusted x - 27) x)"

text \<open>\<^verbatim>\<open>b == 0\<close>: a signalling NaN raises, a quiet one compares unequal.\<close>

fun dec_eq_zero :: "dec \<Rightarrow> exn + bool" where
  "dec_eq_zero (Fin r) = Inr (r = 0)"
| "dec_eq_zero (Infinity s) = Inr False"
| "dec_eq_zero (NaN sig) = (if sig then Inl InvalidOperation else Inr False)"

text \<open>\<^verbatim>\<open>bool(d)\<close>, as \<^verbatim>\<open>d or Decimal(0)\<close> tests it: only a zero is false.\<close>

fun dec_bool :: "dec \<Rightarrow> bool" where
  "dec_bool (Fin r) = (r \<noteq> 0)"
| "dec_bool (Infinity s) = True"
| "dec_bool (NaN sig) = True"

fun dec_add :: "dec \<Rightarrow> dec \<Rightarrow> exn + dec" where
  "dec_add (NaN sa) b = (if sa \<or> b = NaN True then Inl InvalidOperation else Inr (NaN False))"
| "dec_add a (NaN sb) = (if sb then Inl InvalidOperation else Inr (NaN False))"
| "dec_add (Infinity s) (Infinity t) = (if s = t then Inr (Infinity s) else Inl InvalidOperation)"
| "dec_add (Infinity s) (Fin b) = Inr (Infinity s)"
| "dec_add (Fin a) (Infinity t) = Inr (Infinity t)"
| "dec_add (Fin a) (Fin b) = Inr (Fin (ctx_round (a + b)))"

fun dec_sub :: "dec \<Rightarrow> dec \<Rightarrow> exn + dec" where
  "dec_sub (NaN sa) b = (if sa \<or> b = NaN True then Inl InvalidOperation else Inr (NaN False))"
| "dec_sub a (NaN sb) = (if sb then Inl InvalidOperation else Inr (NaN False))"
| "dec_sub (Infinity s) (Infinity t) = (if s = t then Inl InvalidOperation else Inr (Infinity s))"
| "dec_sub (Infinity s) (Fin b) = Inr (Infinity s)"
| "dec_sub (Fin a) (Infinity t) = Inr (Infinity (\<not> t))"
| "dec_sub (Fin a) (Fin b) = Inr (Fin (ctx_round (a - b)))"

fun dec_mul :: "dec \<Rightarrow> dec \<Rightarrow> exn + dec" where
  "dec_mul (NaN sa) b = (if sa \<or> b = NaN True then Inl InvalidOperation else Inr (NaN False))"
| "dec_mul a (NaN sb) = (if sb then Inl InvalidOperation else Inr (NaN False))"
| "dec_mul (Infinity s) (Infinity t) = Inr (Infinity (s \<noteq> t))"
| "dec_mul (Infinity s) (Fin b) =
     (if b = 0 then Inl InvalidOperation else Inr (Infinity (s \<noteq> (b < 0))))"
| "dec_mul (Fin a) (Infinity t) =
     (if a = 0 then Inl InvalidOperation else Inr (Infinity ((a < 0) \<noteq> t)))"
| "dec_mul (Fin a) (Fin b) = Inr (Fin (ctx_round (a * b)))"

fun dec_div :: "dec \<Rightarrow> dec \<Rightarrow> exn + dec" where
  "dec_div (NaN sa) b = (if sa \<or> b = NaN True then Inl InvalidOperation else Inr (NaN False))"
| "dec_div a (NaN sb) = (if sb then Inl InvalidOperation else Inr (NaN False))"
| "dec_div (Infinity s) (Infinity t) = Inl InvalidOperation"
| "dec_div (Infinity s) (Fin b) = Inr (Infinity (s \<noteq> (b < 0)))"
| "dec_div (Fin a) (Infinity t) = Inr (Fin 0)"
| "dec_div (Fin a) (Fin b) =
     (if b = 0 then (if a = 0 then Inl InvalidOperation else Inl DivisionByZero)
      else Inr (Fin (ctx_round (a / b))))"

text \<open>
  \<^verbatim>\<open>round(d, nd)\<close> is \<^verbatim>\<open>d.quantize(Decimal(1).scaleb(-nd))\<close>: it raises when the operand is
  infinite or signalling, and when the rounded coefficient has more than 28 digits.
\<close>

fun dec_round :: "dec \<Rightarrow> nat \<Rightarrow> exn + dec" where
  "dec_round (NaN sig) nd = (if sig then Inl InvalidOperation else Inr (NaN False))"
| "dec_round (Infinity s) nd = Inl InvalidOperation"
| "dec_round (Fin x) nd =
     (let n = round_half_even (x * 10 ^ nd)
      in if 10 ^ 28 \<le> \<bar>n\<bar> then Inl InvalidOperation else Inr (Fin (of_int n / 10 ^ nd)))"

section \<open>Python's \<^verbatim>\<open>float\<close> (IEEE 754 binary64)\<close>

text \<open>
  A float is modelled by its value: a rational that binary64 represents, an infinity
  (\<open>FInf True\<close> is \<open>-inf\<close>) or NaN. Every operation rounds its exact result to the nearest
  representable value, ties to even (\<open>fl\<close>); the sign of a zero is not modelled.
\<close>

datatype pyfloat = FNum rat | FInf bool | FNaN

definition pow2 :: "int \<Rightarrow> rat" where
  "pow2 e = (if 0 \<le> e then 2 ^ nat e else 1 / 2 ^ nat (- e))"

text \<open>\<open>ilog2 x = \<lfloor>log\<^sub>2 \<bar>x\<bar>\<rfloor>\<close> for \<open>x \<noteq> 0\<close>.\<close>

definition ilog2 :: "rat \<Rightarrow> int" where
  "ilog2 x =
     (let (p, q) = quotient_of \<bar>x\<bar>;
          e = ndigits 2 p - ndigits 2 q
      in if pow2 e \<le> \<bar>x\<bar> then e else e - 1)"

definition fl :: "rat \<Rightarrow> pyfloat" where
  "fl x =
     (if x = 0 then FNum 0
      else let q = pow2 (max (ilog2 x - 52) (- 1074));
               y = of_int (round_half_even (x / q)) * q
           in if 1024 \<le> ilog2 y then FInf (x < 0) else FNum y)"

text \<open>\<^verbatim>\<open>float(d)\<close> for a \<^verbatim>\<open>Decimal\<close> \<open>d\<close>.\<close>

fun float_of_dec :: "dec \<Rightarrow> exn + pyfloat" where
  "float_of_dec (Fin x) = Inr (fl x)"
| "float_of_dec (Infinity s) = Inr (FInf s)"
| "float_of_dec (NaN sig) = (if sig then Inl ValueError else Inr FNaN)"

fun fsub :: "pyfloat \<Rightarrow> pyfloat \<Rightarrow> pyfloat" where
  "fsub FNaN b = FNaN"
| "fsub a FNaN = FNaN"
| "fsub (FInf s) (FInf t) = (if s = t then FNaN else FInf s)"
| "fsub (FInf s) (FNum b) = FInf s"
| "fsub (FNum a) (FInf t) = FInf (\<not> t)"
| "fsub (FNum a) (FNum b) = fl (a - b)"

fun fmul :: "pyfloat \<Rightarrow> pyfloat \<Rightarrow> pyfloat" where
  "fmul FNaN b = FNaN"
| "fmul a FNaN = FNaN"
| "fmul (FInf s) (FInf t) = FInf (s \<noteq> t)"
| "fmul (FInf s) (FNum b) = (if b = 0 then FNaN else FInf (s \<noteq> (b < 0)))"
| "fmul (FNum a) (FInf t) = (if a = 0 then FNaN else FInf ((a < 0) \<noteq> t))"
| "fmul (FNum a) (FNum b) = fl (a * b)"

text \<open>Python's \<^verbatim>\<open>a / b\<close> on floats raises \<^verbatim>\<open>ZeroDivisionError\<close> for a zero divisor.\<close>

fun fdiv :: "pyfloat \<Rightarrow> pyfloat \<Rightarrow> exn + pyfloat" where
  "fdiv a (FNum b) =
     (if b = 0 then Inl DivisionByZero
      else case a of FNaN \<Rightarrow> Inr FNaN | FInf s \<Rightarrow> Inr (FInf (s \<noteq> (b < 0)))
           | FNum x \<Rightarrow> Inr (fl (x / b)))"
| "fdiv FNaN b = Inr FNaN"
| "fdiv a FNaN = Inr FNaN"
| "fdiv (FInf s) (FInf t) = Inr FNaN"
| "fdiv (FNum a) (FInf t) = Inr (FNum 0)"

text \<open>
  \<^verbatim>\<open>round(x, nd)\<close> on a float: the exact value is rounded half-even to \<open>nd\<close> decimals and
  the result converted back to the nearest float; infinities and NaN pass through.
\<close>

fun float_round :: "pyfloat \<Rightarrow> nat \<Rightarrow> pyfloat" where
  "float_round (FNum x) nd = fl (of_int (round_half_even (x * 10 ^ nd)) / 10 ^ nd)"
| "float_round f nd = f"

text \<open>\<^verbatim>\<open>bool(x)\<close> and the comparisons with an integer constant.\<close>

fun float_bool :: "pyfloat \<Rightarrow> bool" where
  "float_bool (FNum x) = (x \<noteq> 0)"
| "float_bool f = True"

fun float_lt :: "pyfloat \<Rightarrow> rat \<Rightarrow> bool" where
  "float_lt (FNum x) c = (x < c)"
| "float_lt (FInf s) c = s"
| "float_lt FNaN c = False"

fun float_gt :: "pyfloat \<Rightarrow> rat \<Rightarrow> bool" where
  "float_gt (FNum x) c = (c < x)"
| "float_gt (FInf s) c = (\<not> s)"
| "float_gt FNaN c = False"

section \<open>Reading Python's numeric literals\<close>

text \<open>
  Strings are lists of code points below 256. \<open>is_space\<close> is \<^verbatim>\<open>str.isspace\<close> there.
\<close>

definition is_space :: "char \<Rightarrow> bool" where
  "is_space c = ((of_char c :: int) \<in> set [9, 10, 11, 12, 13, 28, 29, 30, 31, 32, 133, 160])"

definition strip :: "string \<Rightarrow> string" where
  "strip s = rev (dropWhile is_space (rev (dropWhile is_space s)))"

definition is_digit :: "char \<Rightarrow> bool" where
  "is_digit c = (48 \<le> (of_char c :: int) \<and> (of_char c :: int) \<le> 57)"

definition digit_val :: "char \<Rightarrow> int" where
  "digit_val c = of_char c - 48"

definition int_of_digits :: "string \<Rightarrow> int" where
  "int_of_digits ds = foldl (\<lambda>n c. 10 * n + digit_val c) 0 ds"

definition lower :: "char \<Rightarrow> char" where
  "lower c = (if 65 \<le> (of_char c :: int) \<and> (of_char c :: int) \<le> 90
              then char_of (of_char c + 32 :: int) else c)"

definition split_sign :: "string \<Rightarrow> bool \<times> string" where
  "split_sign s =
     (case s of [] \<Rightarrow> (False, [])
      | c # r \<Rightarrow> if c = CHR ''-'' then (True, r)
                 else if c = CHR ''+'' then (False, r) else (False, s))"

text \<open>The exponent part of a decimal numeral: empty, or \<^verbatim>\<open>e\<close>, an optional sign and digits.\<close>

definition parse_exponent :: "string \<Rightarrow> int option" where
  "parse_exponent s =
     (case s of [] \<Rightarrow> Some 0
      | c # r \<Rightarrow>
          if c = CHR ''e'' \<or> c = CHR ''E'' then
            (let (neg, ds) = split_sign r
             in if ds \<noteq> [] \<and> list_all is_digit ds
                then Some (if neg then - int_of_digits ds else int_of_digits ds)
                else None)
          else None)"

text \<open>
  \<^verbatim>\<open>Decimal(s)\<close> for a string \<open>s\<close>, after the grammar of the \<^verbatim>\<open>decimal\<close> module:
  surrounding whitespace is stripped and underscores are dropped; then an optional sign
  and either a numeral (digits with at most one point and at least one digit, and an
  optional exponent), \<^verbatim>\<open>Inf\<close> or \<^verbatim>\<open>Infinity\<close>, or \<^verbatim>\<open>NaN\<close> or \<^verbatim>\<open>sNaN\<close> with optional payload
  digits, in any letter case. Anything else raises \<^verbatim>\<open>InvalidOperation\<close>.
\<close>

definition Decimal :: "string \<Rightarrow> exn + dec" where
  "Decimal s =
     (let (neg, body) = split_sign (filter (\<lambda>c. c \<noteq> CHR ''_'') (strip s));
          low = map lower body
      in if low = ''inf'' \<or> low = ''infinity'' then Inr (Infinity neg)
         else if take 3 low = ''nan'' \<and> list_all is_digit (drop 3 low) then Inr (NaN False)
         else if take 4 low = ''snan'' \<and> list_all is_digit (drop 4 low) then Inr (NaN True)
         else
           let ip = takeWhile is_digit body;
               r1 = dropWhile is_digit body;
               (fp, r2) = (case r1 of [] \<Rightarrow> ([], [])
                           | c # r \<Rightarrow> if c = CHR ''.''
                                      then (takeWhile is_digit r, dropWhile is_digit r)
                                      else ([], r1))
           in if ip = [] \<and> fp = [] then Inl InvalidOperation
              else case parse_exponent r2 of
                     None \<Rightarrow> Inl InvalidOperation
                   | Some e \<Rightarrow>
                       Inr (Fin ((if neg then - 1 else 1) * of_int (int_of_digits (ip @ fp))
                                 * pow10 (e - int (length fp)))))"

section \<open>Decimal coercion and formatting\<close>

text \<open>
  A raw value handed to \<^verbatim>\<open>_to_dec_safe\<close>: \<^verbatim>\<open>None\<close>, a string, or a number. \<open>RNum r\<close> is a
  finite number (a float or an int) whose \<^verbatim>\<open>str\<close> is a numeral denoting \<open>r\<close>; \<open>RInf\<close> and
  \<open>RNaN\<close> are the floats that print as \<^verbatim>\<open>inf\<close>, \<^verbatim>\<open>-inf\<close> and \<^verbatim>\<open>nan\<close>.
\<close>

datatype raw = RNone | RStr string | RNum rat | RInf bool | RNaN

text \<open>\<^verbatim>\<open>Decimal(str(x))\<close>; \<^verbatim>\<open>str(None)\<close> is the string \<^verbatim>\<open>None\<close>.\<close>

fun Decimal_str :: "raw \<Rightarrow> exn + dec" where
  "Decimal_str RNone = Decimal ''None''"
| "Decimal_str (RStr s) = Decimal s"
| "Decimal_str (RNum r) = Inr (Fin r)"
| "Decimal_str (RInf s) = Inr (Infinity s)"
| "Decimal_str RNaN = Inr (NaN False)"

text \<open>
  \<^verbatim>\<open>
  def _to_dec_safe(x):
      try:
          if x in (None, "", "None"): return None
          return Decimal(str(x))
      except (InvalidOperation, ValueError):
          return None
  \<close>
\<close>

definition to_dec_safe :: "raw \<Rightarrow> exn + dec option" where
  "to_dec_safe x =
     (case (if x \<in> set [RNone, RStr [], RStr ''None''] then Inr None
            else bindE (Decimal_str x) (\<lambda>d. Inr (Some d))) of
        Inl e \<Rightarrow> if e \<in> set [InvalidOperation, ValueError] then Inr None else Inl e
      | Inr r \<Rightarrow> Inr r)"

text \<open>
  \<^verbatim>\<open>
  def _fmt(x, nd=4): return None if x is None else float(round(x, nd))
  def _pct(x): return None if x is None else x * Decimal(100)
  def _div(a, b): return None if (a is None or b in (None, 0)) else a / b
  \<close>
\<close>

definition fmt :: "dec option \<Rightarrow> nat \<Rightarrow> exn + pyfloat option" where
  "fmt x nd =
     (case x of None \<Rightarrow> Inr None
      | Some d \<Rightarrow> bindE (dec_round d nd) (\<lambda>r. bindE (float_of_dec r) (\<lambda>f. Inr (Some f))))"

definition pct :: "dec option \<Rightarrow> exn + dec option" where
  "pct x =
     (case x of None \<Rightarrow> Inr None
      | Some d \<Rightarrow> bindE (dec_mul d (Fin 100)) (\<lambda>p. Inr (Some p)))"

definition div_dec :: "dec option \<Rightarrow> dec option \<Rightarrow> exn + dec option" where
  "div_dec a b =
     (case a of None \<Rightarrow> Inr None
      | Some x \<Rightarrow>
          (case b of None \<Rightarrow> Inr None
           | Some y \<Rightarrow>
               bindE (dec_eq_zero y)
                 (\<lambda>z. if z then Inr None else bindE (dec_div x y) (\<lambda>q. Inr (Some q)))))"

section \<open>Statement tables and field resolution\<close>

text \<open>
  A statement table (a \<^verbatim>\<open>pandas.DataFrame\<close> as \<^verbatim>\<open>yfinance\<close> returns it) has one row per
  line-item label and one column per fiscal period; \<^verbatim>\<open>df.loc[label]\<close> is the row as a
  series over the periods. Labels and periods are unique within a table. A cell is
  numeric or missing: a finite number, NaN or \<^verbatim>\<open>None\<close>. A period is a timestamp at
  midnight, given by its year, month and day, ordered chronologically.
\<close>

datatype cell = CNum rat | CNaN | CNone

type_synonym date = "int \<times> int \<times> int"

type_synonym series = "(date \<times> cell) list"

type_synonym frame = "(string \<times> series) list"

definition INC_FIELDS :: "(string \<times> string list) list" where
  "INC_FIELDS =
     [(''revenue'', [''Total Revenue'', ''TotalRevenue'', ''Revenue'']),
      (''grossProfit'', [''Gross Profit'', ''GrossProfit'']),
      (''netIncome'', [''Net Income'', ''NetIncome'']),
      (''rd'', [''Research Development'', ''Research And Development'', ''R&D'',
                ''ResearchDevelopment''])]"

definition BAL_FIELDS :: "(string \<times> string list) list" where
  "BAL_FIELDS =
     [(''cash'', [''Cash And Cash Equivalents'', ''CashAndCashEquivalents'', ''Cash'']),
      (''shortDebt'', [''Short/Current Long Term Debt'', ''Short Term Debt'',
                       ''Short Long Term Debt'', ''CurrentDebtAndCapitalLeaseObligation'',
                       ''Current Debt And Capital Lease Obligation'']),
      (''longDebt'', [''Long Term Debt'', ''LongTermDebt'',
                      ''LongTermDebtAndCapitalLeaseObligation'',
                      ''Long Term Debt And Capital Lease Obligation'']),
      (''totalLiab'', [''Total Liab'', ''Total Liabilities'',
                       ''TotalLiabilitiesNetMinorityInterest'',
                       ''Total Liabilities Net Minority Interest'']),
      (''equity'', [''StockholdersEquity'', ''Total Stockholder Equity'',
                    ''Total Stockholders Equity'', ''Total Shareholder Equity'',
                    ''Total Equity Gross Minority Interest'', ''Total Equity'']),
      (''currAssets'', [''Total Current Assets'', ''CurrentAssets'', ''Current Assets'']),
      (''currLiab'', [''CurrentLiabilities'', ''Total Current Liabilities'',
                      ''Current Liabilities''])]"

definition CF_FIELDS :: "(string \<times> string list) list" where
  "CF_FIELDS =
     [(''opCF'', [''Operating Cash Flow'', ''OperatingCashFlow'',
                  ''Total Cash From Operating Activities'',
                  ''Net Cash Provided By Operating Activities'']),
      (''capex'', [''CapitalExpenditure'', ''Capital Expenditures'', ''Capital Expenditure''])]"

text \<open>\<^verbatim>\<open>FIELDS[key]\<close>; every key the builder asks for is in its table.\<close>

definition aliases :: "(string \<times> string list) list \<Rightarrow> string \<Rightarrow> string list" where
  "aliases fields key = (case map_of fields key of None \<Rightarrow> [] | Some names \<Rightarrow> names)"

text \<open>
  \<^verbatim>\<open>
  def get_first(df, name_list):
      for n in name_list:
          if n in df.index:
              return df.loc[n]
      return None
  \<close>
\<close>

fun get_first :: "frame \<Rightarrow> string list \<Rightarrow> series option" where
  "get_first df [] = None"
| "get_first df (n # ns) = (if n \<in> set (map fst df) then map_of df n else get_first df ns)"

section \<open>The metric row builder\<close>

text \<open>\<^verbatim>\<open>cols(s)\<close>: the periods of a resolved series, none for an unresolved one.\<close>

definition cols :: "series option \<Rightarrow> date list" where
  "cols s = (case s of None \<Rightarrow> [] | Some ser \<Rightarrow> map fst ser)"

text \<open>\<^verbatim>\<open>sorted(set(itertools.chain(...)), reverse=True)\<close>\<close>

definition aligned_dates :: "series option list \<Rightarrow> date list" where
  "aligned_dates ss = rev (sorted_list_of_set (set (concat (map cols ss))))"

definition isna :: "cell \<Rightarrow> bool" where
  "isna v = (v = CNaN \<or> v = CNone)"

fun raw_of_cell :: "cell \<Rightarrow> raw" where
  "raw_of_cell (CNum r) = RNum r"
| "raw_of_cell CNaN = RNaN"
| "raw_of_cell CNone = RNone"

text \<open>
  \<^verbatim>\<open>
  def val(s):
      if s is None: return None
      v = s.get(d, None)
      if pd.isna(v): return None
      return _to_dec_safe(v)
  \<close>
\<close>

definition val :: "date \<Rightarrow> series option \<Rightarrow> exn + dec option" where
  "val d s =
     (case s of None \<Rightarrow> Inr None
      | Some ser \<Rightarrow>
          (case map_of ser d of None \<Rightarrow> Inr None
           | Some v \<Rightarrow> if isna v then Inr None else to_dec_safe (raw_of_cell v)))"

text \<open>The thirteen raw values the loop body reads for one period.\<close>

record inputs =
  totalRevenue :: "dec option"
  grossProfit :: "dec option"
  netIncome :: "dec option"
  rd_expense :: "dec option"
  cash :: "dec option"
  shortDebt :: "dec option"
  longDebt :: "dec option"
  totalLiab :: "dec option"
  equity :: "dec option"
  currAssets :: "dec option"
  currLiab :: "dec option"
  opCF :: "dec option"
  capex :: "dec option"

text \<open>\<^verbatim>\<open>fcf = (opCF - capex) if None not in (opCF, capex) else None\<close>\<close>

definition fcf :: "inputs \<Rightarrow> exn + dec option" where
  "fcf i =
     (case (opCF i, capex i) of
        (Some a, Some b) \<Rightarrow> bindE (dec_sub a b) (\<lambda>d. Inr (Some d))
      | _ \<Rightarrow> Inr None)"

text \<open>\<^verbatim>\<open>x or Decimal(0)\<close>\<close>

definition or_zero :: "dec option \<Rightarrow> dec" where
  "or_zero x = (case x of None \<Rightarrow> Fin 0 | Some d \<Rightarrow> if dec_bool d then d else Fin 0)"

text \<open>
  \<^verbatim>\<open>
  totalDebt = None
  if shortDebt is not None or longDebt is not None:
      totalDebt = (shortDebt or Decimal(0)) + (longDebt or Decimal(0))
  \<close>
\<close>

definition totalDebt :: "inputs \<Rightarrow> exn + dec option" where
  "totalDebt i =
     (if shortDebt i \<noteq> None \<or> longDebt i \<noteq> None
      then bindE (dec_add (or_zero (shortDebt i)) (or_zero (longDebt i))) (\<lambda>d. Inr (Some d))
      else Inr None)"

text \<open>
  The values of a metrics mapping: \<^verbatim>\<open>None\<close>, a float, a string, or the list of flags.
  The mapping itself is an association list in insertion order, as a Python \<^verbatim>\<open>dict\<close> is;
  \<open>AList.update\<close> is \<^verbatim>\<open>m[k] = v\<close> and \<open>get\<close> is \<^verbatim>\<open>m.get(k)\<close>.
\<close>

datatype jval = JNull | JNum pyfloat | JStr string | JList "string list"

type_synonym metrics = "(string \<times> jval) list"

definition get :: "metrics \<Rightarrow> string \<Rightarrow> jval" where
  "get m k = (case map_of m k of None \<Rightarrow> JNull | Some v \<Rightarrow> v)"

definition jnum :: "pyfloat option \<Rightarrow> jval" where
  "jnum v = (case v of None \<Rightarrow> JNull | Some f \<Rightarrow> JNum f)"

text \<open>One entry \<^verbatim>\<open>"key": _fmt(x, nd)\<close> of the dictionary display.\<close>

definition jfmt :: "dec option \<Rightarrow> nat \<Rightarrow> exn + jval" where
  "jfmt x nd = bindE (fmt x nd) (\<lambda>v. Inr (jnum v))"

text \<open>
  The entries of \<^verbatim>\<open>row["metrics"]\<close> in the order of the display; each value is computed
  when its entry is reached, so the first one that raises ends the construction.
\<close>

definition metric_entries ::
  "string \<Rightarrow> inputs \<Rightarrow> dec option \<Rightarrow> dec option \<Rightarrow> (string \<times> (exn + jval)) list" where
  "metric_entries ds i fcf_v totalDebt_v =
     [(''fiscalDate'', Inr (JStr ds)),
      (''totalRevenue'', jfmt (totalRevenue i) 2),
      (''grossProfit'', jfmt (grossProfit i) 2),
      (''netIncome'', jfmt (netIncome i) 2),
      (''grossMargin_pct'',
         bindE (div_dec (grossProfit i) (totalRevenue i)) (\<lambda>q. bindE (pct q) (\<lambda>p. jfmt p 2))),
      (''netMargin_pct'',
         bindE (div_dec (netIncome i) (totalRevenue i)) (\<lambda>q. bindE (pct q) (\<lambda>p. jfmt p 2))),
      (''operatingCashflow'', jfmt (opCF i) 2),
      (''capitalExpenditures'', jfmt (capex i) 2),
      (''freeCashFlow'', jfmt fcf_v 2),
      (''cashAndCashEquivalents'', jfmt (cash i) 2),
      (''shortTermDebt'', jfmt (shortDebt i) 2),
      (''longTermDebt'', jfmt (longDebt i) 2),
      (''totalDebt'', if totalDebt_v \<noteq> None then jfmt totalDebt_v 2 else Inr JNull),
      (''totalLiabilities'', jfmt (totalLiab i) 2),
      (''totalShareholderEquity'', jfmt (equity i) 2),
      (''totalCurrentAssets'', jfmt (currAssets i) 2),
      (''totalCurrentLiabilities'', jfmt (currLiab i) 2),
      (''debtToEquity'', bindE (div_dec (totalLiab i) (equity i)) (\<lambda>q. jfmt q 4)),
      (''currentRatio'', bindE (div_dec (currAssets i) (currLiab i)) (\<lambda>q. jfmt q 4)),
      (''cashRatio'', bindE (div_dec (cash i) (currLiab i)) (\<lambda>q. jfmt q 4)),
      (''researchAndDevelopment'', jfmt (rd_expense i) 2),
      (''rdIntensity_pct'',
         bindE (div_dec (rd_expense i) (totalRevenue i)) (\<lambda>q. bindE (pct q) (\<lambda>p. jfmt p 2))),
      (''capexToRevenue_pct'',
         bindE (div_dec (capex i) (totalRevenue i)) (\<lambda>q. bindE (pct q) (\<lambda>p. jfmt p 2)))]"

fun collect :: "(string \<times> (exn + jval)) list \<Rightarrow> exn + metrics" where
  "collect [] = Inr []"
| "collect ((k, v) # es) = bindE v (\<lambda>x. bindE (collect es) (\<lambda>m. Inr ((k, x) # m)))"

text \<open>
  The comparisons of the flag tests, \<^verbatim>\<open>m[k] < c\<close> and \<^verbatim>\<open>m[k] > c\<close>. They are reached only
  when \<^verbatim>\<open>m.get(k)\<close> is not \<^verbatim>\<open>None\<close>, and the three keys they read hold a float or \<^verbatim>\<open>None\<close>.
\<close>

fun jval_lt :: "jval \<Rightarrow> rat \<Rightarrow> bool" where
  "jval_lt (JNum f) c = float_lt f c"
| "jval_lt v c = False"

fun jval_gt :: "jval \<Rightarrow> rat \<Rightarrow> bool" where
  "jval_gt (JNum f) c = float_gt f c"
| "jval_gt v c = False"

text \<open>
  \<^verbatim>\<open>
  flags = []
  if (m.get("currentRatio") is not None) and (m["currentRatio"] < 1): flags.append("current_ratio_lt_1")
  if (m.get("freeCashFlow") is not None) and (m["freeCashFlow"] < 0): flags.append("negative_fcf")
  if (m.get("debtToEquity") is not None) and (m["debtToEquity"] > 2): flags.append("high_debt_to_equity")
  \<close>
\<close>

definition distress_flags :: "metrics \<Rightarrow> string list" where
  "distress_flags m =
     (if get m ''currentRatio'' \<noteq> JNull \<and> jval_lt (get m ''currentRatio'') 1
      then [''current_ratio_lt_1''] else [])
     @ (if get m ''freeCashFlow'' \<noteq> JNull \<and> jval_lt (get m ''freeCashFlow'') 0
        then [''negative_fcf''] else [])
     @ (if get m ''debtToEquity'' \<noteq> JNull \<and> jval_gt (get m ''debtToEquity'') 2
        then [''high_debt_to_equity''] else [])"

text \<open>
  An output record. The \<^verbatim>\<open>summary\<close> string repeats four of the formatted metrics in
  print form; it takes no part in any computation and is left out.
\<close>

record row =
  company :: string
  symbol :: string
  freq :: string
  fiscalDate :: string
  metrics :: metrics
  source :: string

text \<open>\<^verbatim>\<open>str(n)\<close> for an integer and the zero padding of \<^verbatim>\<open>date.isoformat\<close>.\<close>

definition digit_char :: "int \<Rightarrow> char" where
  "digit_char n = char_of (48 + n)"

function str_nat :: "int \<Rightarrow> string" where
  "str_nat n = (if n < 10 then [digit_char n] else str_nat (n div 10) @ [digit_char (n mod 10)])"
  by pat_completeness auto
termination
  by (relation "measure nat") auto

declare str_nat.simps [simp del]

definition py_str_int :: "int \<Rightarrow> string" where
  "py_str_int n = (if n < 0 then CHR ''-'' # str_nat (- n) else str_nat n)"

definition zfill :: "nat \<Rightarrow> string \<Rightarrow> string" where
  "zfill w s = replicate (w - length s) CHR ''0'' @ s"

text \<open>\<^verbatim>\<open>ds = str(d.date())\<close>: the ISO form \<^verbatim>\<open>YYYY-MM-DD\<close>.\<close>

definition iso_date :: "date \<Rightarrow> string" where
  "iso_date d =
     (case d of (y, m, dd) \<Rightarrow>
        zfill 4 (py_str_int y) @ ''-'' @ zfill 2 (py_str_int m) @ ''-'' @ zfill 2 (py_str_int dd))"

text \<open>The body of the loop over the aligned periods, up to \<^verbatim>\<open>out.append(row)\<close>.\<close>

definition read_inputs :: "frame \<Rightarrow> frame \<Rightarrow> frame \<Rightarrow> date \<Rightarrow> exn + inputs" where
  "read_inputs inc_df bal_df cf_df d =
     bindE (val d (get_first inc_df (aliases INC_FIELDS ''revenue''))) (\<lambda>v1.
     bindE (val d (get_first inc_df (aliases INC_FIELDS ''grossProfit''))) (\<lambda>v2.
     bindE (val d (get_first inc_df (aliases INC_FIELDS ''netIncome''))) (\<lambda>v3.
     bindE (val d (get_first inc_df (aliases INC_FIELDS ''rd''))) (\<lambda>v4.
     bindE (val d (get_first bal_df (aliases BAL_FIELDS ''cash''))) (\<lambda>v5.
     bindE (val d (get_first bal_df (aliases BAL_FIELDS ''shortDebt''))) (\<lambda>v6.
     bindE (val d (get_first bal_df (aliases BAL_FIELDS ''longDebt''))) (\<lambda>v7.
     bindE (val d (get_first bal_df (aliases BAL_FIELDS ''totalLiab''))) (\<lambda>v8.
     bindE (val d (get_first bal_df (aliases BAL_FIELDS ''equity''))) (\<lambda>v9.
     bindE (val d (get_first bal_df (aliases BAL_FIELDS ''currAssets''))) (\<lambda>v10.
     bindE (val d (get_first bal_df (aliases BAL_FIELDS ''currLiab''))) (\<lambda>v11.
     bindE (val d (get_first cf_df (aliases CF_FIELDS ''opCF''))) (\<lambda>v12.
     bindE (val d (get_first cf_df (aliases CF_FIELDS ''capex''))) (\<lambda>v13.
     Inr \<lparr>totalRevenue = v1, grossProfit = v2, netIncome = v3, rd_expense = v4,
          cash = v5, shortDebt = v6, longDebt = v7, totalLiab = v8, equity = v9,
          currAssets = v10, currLiab = v11, opCF = v12, capex = v13\<rparr>)))))))))))))"

definition build_metrics :: "string \<Rightarrow> inputs \<Rightarrow> exn + metrics" where
  "build_metrics ds i =
     bindE (fcf i) (\<lambda>fcf_v.
     bindE (totalDebt i) (\<lambda>totalDebt_v.
     bindE (collect (metric_entries ds i fcf_v totalDebt_v)) (\<lambda>m.
     Inr (AList.update ''distressFlags'' (JList (distress_flags m)) m))))"

definition build_row :: "string \<Rightarrow> string \<Rightarrow> string \<Rightarrow> date \<Rightarrow> inputs \<Rightarrow> exn + row" where
  "build_row company_name symbol_name freq_label d i =
     bindE (build_metrics (iso_date d) i) (\<lambda>m.
     Inr \<lparr>company = company_name, symbol = symbol_name, freq = freq_label,
          fiscalDate = iso_date d, metrics = m, source = ''YahooFinance''\<rparr>)"

fun build_loop ::
  "string \<Rightarrow> string \<Rightarrow> string \<Rightarrow> frame \<Rightarrow> frame \<Rightarrow> frame \<Rightarrow> date list \<Rightarrow> exn + row list" where
  "build_loop c s f inc_df bal_df cf_df [] = Inr []"
| "build_loop c s f inc_df bal_df cf_df (d # ds) =
     bindE (read_inputs inc_df bal_df cf_df d) (\<lambda>i.
     bindE (build_row c s f d i) (\<lambda>r.
     bindE (build_loop c s f inc_df bal_df cf_df ds) (\<lambda>rs. Inr (r # rs))))"

text \<open>The thirteen series in the order the builder chains their periods.\<close>

definition resolved_series :: "frame \<Rightarrow> frame \<Rightarrow> frame \<Rightarrow> series option list" where
  "resolved_series inc_df bal_df cf_df =
     [get_first inc_df (aliases INC_FIELDS ''revenue''),
      get_first inc_df (aliases INC_FIELDS ''grossProfit''),
      get_first inc_df (aliases INC_FIELDS ''netIncome''),
      get_first inc_df (aliases INC_FIELDS ''rd''),
      get_first bal_df (aliases BAL_FIELDS ''cash''),
      get_first bal_df (aliases BAL_FIELDS ''shortDebt''),
      get_first bal_df (aliases BAL_FIELDS ''longDebt''),
      get_first bal_df (aliases BAL_FIELDS ''totalLiab''),
      get_first bal_df (aliases BAL_FIELDS ''equity''),
      get_first bal_df (aliases BAL_FIELDS ''currAssets''),
      get_first bal_df (aliases BAL_FIELDS ''currLiab''),
      get_first cf_df (aliases CF_FIELDS ''opCF''),
      get_first cf_df (aliases CF_FIELDS ''capex'')]"

section \<open>The growth calculator\<close>

text \<open>
  \<^verbatim>\<open>int(s)\<close> for a string: whitespace around the numeral is skipped, then comes an
  optional sign and decimal digits, where single underscores may separate digits.
  Anything else raises \<^verbatim>\<open>ValueError\<close>.
\<close>

definition is_int_space :: "char \<Rightarrow> bool" where
  "is_int_space c = ((of_char c :: int) \<in> set [9, 10, 11, 12, 13, 32, 133, 160])"

fun int_body_ok :: "string \<Rightarrow> bool" where
  "int_body_ok [] = False"
| "int_body_ok [c] = is_digit c"
| "int_body_ok (c # d # r) =
     (is_digit c \<and> (if d = CHR ''_'' then int_body_ok r else int_body_ok (d # r)))"

definition py_int :: "string \<Rightarrow> exn + int" where
  "py_int s =
     (let (neg, body) =
            split_sign (rev (dropWhile is_int_space (rev (dropWhile is_int_space s))))
      in if int_body_ok body
         then (let n = int_of_digits (filter (\<lambda>c. c \<noteq> CHR ''_'') body)
               in Inr (if neg then - n else n))
         else Inl ValueError)"

text \<open>
  \<^verbatim>\<open>by_date = {r["fiscalDate"]: r for r in out}\<close>. The dictionary holds references to the
  rows of \<^verbatim>\<open>out\<close>, which the loop below mutates; the model keeps the rows in one list and
  lets \<open>by_date\<close> give the index of a row. A later row with the same key replaces an
  earlier one.
\<close>

definition by_date :: "row list \<Rightarrow> string \<Rightarrow> nat option" where
  "by_date out = map_of (rev (zip (map fiscalDate out) [0..<length out]))"

text \<open>\<^verbatim>\<open>round((cv - pv) / pv * 100, 2)\<close> on floats\<close>

definition growth_pct :: "pyfloat \<Rightarrow> pyfloat \<Rightarrow> exn + pyfloat" where
  "growth_pct cv pv =
     bindE (fdiv (fsub cv pv) pv) (\<lambda>q. Inr (float_round (fmul q (FNum 100)) 2))"

text \<open>
  One pass of the body of \<^verbatim>\<open>for k in ("totalRevenue", "netIncome")\<close>, for the row at index
  \<open>i\<close> against the row at index \<open>j\<close>:
  \<^verbatim>\<open>
  cv, pv = m.get(k), prev_m.get(k)
  if all(isinstance(v, (int, float)) for v in (cv, pv)) and pv:
      m[f"{k}_QoQ_growth_pct"] = round((cv - pv) / pv * 100, 2)
  \<close>
  Both values are numbers exactly when both are floats, and \<^verbatim>\<open>pv\<close> is true exactly when
  it is not zero.
\<close>

definition grow_key :: "string \<Rightarrow> nat \<Rightarrow> nat \<Rightarrow> string \<Rightarrow> row list \<Rightarrow> exn + row list" where
  "grow_key suffix i j k rows =
     (let m = metrics (rows ! i); prev_m = metrics (rows ! j)
      in case (get m k, get prev_m k) of
           (JNum cv, JNum pv) \<Rightarrow>
             if float_bool pv
             then bindE (growth_pct cv pv)
                    (\<lambda>g. Inr (rows[i := (rows ! i)
                                   \<lparr>metrics := AList.update (k @ suffix) (JNum g) m\<rparr>]))
             else Inr rows
         | _ \<Rightarrow> Inr rows)"

text \<open>
  \<^verbatim>\<open>
  if i + 1 < len(out):
      prev_m = out[i + 1]["metrics"]
      for k in ("totalRevenue", "netIncome"): ...
  \<close>
\<close>

definition qoq :: "nat \<Rightarrow> row list \<Rightarrow> exn + row list" where
  "qoq i rows =
     (if i + 1 < length rows
      then bindE (grow_key ''_QoQ_growth_pct'' i (i + 1) ''totalRevenue'' rows)
             (grow_key ''_QoQ_growth_pct'' i (i + 1) ''netIncome'')
      else Inr rows)"

text \<open>
  \<^verbatim>\<open>
  try:
      mmdd = row["fiscalDate"][5:]
      prev_y = by_date.get(str(int(row["fiscalDate"][:4]) - 1) + "-" + mmdd)
      if prev_y:
          prev_m = prev_y["metrics"]
          for k in ("totalRevenue", "netIncome"): ...
  except:
      pass
  \<close>
  Whatever is raised inside is dropped, and what was stored before it stays.
\<close>

definition yoy :: "(string \<Rightarrow> nat option) \<Rightarrow> nat \<Rightarrow> row list \<Rightarrow> row list" where
  "yoy bd i rows =
     (let fd = fiscalDate (rows ! i); mmdd = drop 5 fd
      in case py_int (take 4 fd) of
           Inl e \<Rightarrow> rows
         | Inr y \<Rightarrow>
             (case bd (py_str_int (y - 1) @ ''-'' @ mmdd) of
                None \<Rightarrow> rows
              | Some j \<Rightarrow>
                  (case grow_key ''_YoY_growth_pct'' i j ''totalRevenue'' rows of
                     Inl e \<Rightarrow> rows
                   | Inr rows1 \<Rightarrow>
                       (case grow_key ''_YoY_growth_pct'' i j ''netIncome'' rows1 of
                          Inl e \<Rightarrow> rows1
                        | Inr rows2 \<Rightarrow> rows2))))"

text \<open>\<^verbatim>\<open>for i, row in enumerate(out): ...\<close>\<close>

fun growth_loop :: "(string \<Rightarrow> nat option) \<Rightarrow> nat list \<Rightarrow> row list \<Rightarrow> exn + row list" where
  "growth_loop bd [] rows = Inr rows"
| "growth_loop bd (i # is) rows =
     bindE (qoq i rows) (\<lambda>rows1. growth_loop bd is (yoy bd i rows1))"

definition add_growth :: "row list \<Rightarrow> exn + row list" where
  "add_growth out = growth_loop (by_date out) [0..<length out] out"

definition build_rows_from_dfs ::
  "string \<Rightarrow> string \<Rightarrow> frame \<Rightarrow> frame \<Rightarrow> frame \<Rightarrow> string \<Rightarrow> exn + row list" where
  "build_rows_from_dfs company_name symbol_name inc_df bal_df cf_df freq_label =
     bindE (build_loop company_name symbol_name freq_label inc_df bal_df cf_df
              (aligned_dates (resolved_series inc_df bal_df cf_df)))
       add_growth"

section \<open>The orchestrator\<close>

text \<open>
  The six tables of one ticker. The data-source client is a parameter: given a symbol
  it returns the tables or raises.
\<close>

record tables =
  inc_a :: frame
  bal_a :: frame
  cf_a :: frame
  inc_q :: frame
  bal_q :: frame
  cf_q :: frame

text \<open>The lines the run prints, by kind.\<close>

datatype message =
    Progress string string
  | WarnNoSymbol string
  | InfoNoFinancials string string
  | WarnFailed string string exn

text \<open>
  \<^verbatim>\<open>
  def fetch_yahoo_financials(company, symbol):
      if not symbol:
          print(f"[warn] No symbol for {company}")
          return []
      t = yf.Ticker(symbol)
      ...
      records += build_rows_from_dfs(company, symbol, inc_q, bal_q, cf_q, "Quarter")
      records += build_rows_from_dfs(company, symbol, inc_a, bal_a, cf_a, "Annual")
      return records
  \<close>
  The result is what was printed and what was returned or raised.
\<close>

definition fetch_yahoo_financials ::
  "(string \<Rightarrow> exn + tables) \<Rightarrow> string \<Rightarrow> string \<Rightarrow> message list \<times> (exn + row list)" where
  "fetch_yahoo_financials ticker company_name symbol_name =
     (if symbol_name = [] then ([WarnNoSymbol company_name], Inr [])
      else ([],
        bindE (ticker symbol_name) (\<lambda>t.
        bindE (build_rows_from_dfs company_name symbol_name (inc_q t) (bal_q t) (cf_q t)
                 ''Quarter'') (\<lambda>quarterly.
        bindE (build_rows_from_dfs company_name symbol_name (inc_a t) (bal_a t) (cf_a t)
                 ''Annual'') (\<lambda>annual.
        Inr (quarterly @ annual))))))"

definition SYMBOL_MAP :: "(string \<times> string) list" where
  "SYMBOL_MAP =
     [(''AIXTRON'', ''AIXA.DE''),
      (''Applied Materials'', ''AMAT''),
      (''AJ'', ''2802.T''),
      (''ASML'', ''ASML''),
      (''Naura'', ''002371.SZ''),
      (''TEL (Tokyo Electron)'', ''8035.T''),
      (''KLA'', ''KLAC''),
      (''CAMECA (AMTEK)'', ''AME''),
      (''OSI Systems'', ''OSIS''),
      (''Genes Tech'', ''8257.HK''),
      (''Scientech'', ''3583.TW'')]"

text \<open>
  One iteration of the loop of \<^verbatim>\<open>main\<close> on the state (printed lines, \<^verbatim>\<open>all_records\<close>):
  \<^verbatim>\<open>
  print(f"[Yahoo] {company} -> {symbol}")
  try:
      recs = fetch_yahoo_financials(company, symbol)
      if not recs:
          print(f"[info] No financials returned for {company} ({symbol})")
      all_records.extend(recs)
  except Exception as e:
      print(f"[warn] {company} ({symbol}) failed: {type(e).__name__}: {e}")
  \<close>
  An exception that the handler does not catch would leave the loop as \<open>Inl\<close>.
\<close>

definition company_step ::
  "(string \<Rightarrow> exn + tables) \<Rightarrow> string \<times> string \<Rightarrow> message list \<times> row list
     \<Rightarrow> exn + message list \<times> row list" where
  "company_step ticker cs st =
     (case cs of (company_name, symbol_name) \<Rightarrow>
      case st of (printed, all_records) \<Rightarrow>
        (let printed1 = printed @ [Progress company_name symbol_name];
             (fetch_printed, result) = fetch_yahoo_financials ticker company_name symbol_name
         in case result of
              Inr recs \<Rightarrow>
                Inr (printed1 @ fetch_printed
                       @ (if recs = [] then [InfoNoFinancials company_name symbol_name] else []),
                     all_records @ recs)
            | Inl e \<Rightarrow>
                Inr (printed1 @ fetch_printed @ [WarnFailed company_name symbol_name e],
                     all_records)))"

fun main_loop ::
  "(string \<Rightarrow> exn + tables) \<Rightarrow> (string \<times> string) list \<Rightarrow> message list \<times> row list
     \<Rightarrow> exn + message list \<times> row list" where
  "main_loop ticker [] st = Inr st"
| "main_loop ticker (cs # rest) st = bindE (company_step ticker cs st) (main_loop ticker rest)"

text \<open>
  \<^verbatim>\<open>main\<close> over a company-to-symbol mapping: what was printed, and the records handed to
  \<^verbatim>\<open>write_outputs\<close>.
\<close>

definition main_over ::
  "(string \<Rightarrow> exn + tables) \<Rightarrow> (string \<times> string) list \<Rightarrow> exn + message list \<times> row list" where
  "main_over ticker symbol_map = main_loop ticker symbol_map ([], [])"

definition main :: "(string \<Rightarrow> exn + tables) \<Rightarrow> exn + message list \<times> row list" where
  "main ticker = main_over ticker SYMBOL_MAP"

section \<open>Auxiliary notions\<close>

text \<open>A value that is missing or a finite decimal, as every value read from a cell is.\<close>

definition fin_opt :: "dec option \<Rightarrow> bool" where
  "fin_opt v = (case v of None \<Rightarrow> True | Some (Fin r) \<Rightarrow> True | Some _ \<Rightarrow> False)"


text \<open>The keys the growth calculator writes.\<close>

definition growth_keys :: "string list" where
  "growth_keys =
     [''totalRevenue_QoQ_growth_pct'', ''netIncome_QoQ_growth_pct'',
      ''totalRevenue_YoY_growth_pct'', ''netIncome_YoY_growth_pct'']"

text \<open>
  Two states of the row list that differ at most in the growth keys of their metrics.
\<close>

definition same_base :: "row list \<Rightarrow> row list \<Rightarrow> bool" where
  "same_base rows rows' \<longleftrightarrow>
     length rows' = length rows
     \<and> (\<forall>n. (rows' ! n)\<lparr>metrics := []\<rparr> = (rows ! n)\<lparr>metrics := []\<rparr>)
     \<and> (\<forall>n key. key \<notin> set growth_keys \<longrightarrow>
            map_of (metrics (rows' ! n)) key = map_of (metrics (rows ! n)) key)"

text \<open>
  A derived ratio stored under key \<open>k\<close> is \<^verbatim>\<open>None\<close> exactly when its numerator \<open>a\<close> is
  missing or its denominator \<open>b\<close> is missing or zero.
\<close>

definition null_iff_missing :: "metrics \<Rightarrow> string \<Rightarrow> dec option \<Rightarrow> dec option \<Rightarrow> bool" where
  "null_iff_missing m k a b \<longleftrightarrow>
     (\<exists>v. map_of m k = Some v \<and> (v = JNull \<longleftrightarrow> a = None \<or> b = None \<or> b = Some (Fin 0)))"


section \<open>Example tables\<close>

text \<open>
  The end-to-end scenarios of the specification: one company with two quarters, the
  later one with revenue 1000, gross profit 400, net income 100, current assets 80
  against current liabilities 100, and operating cash flow 50 against capital
  expenditures 70.
\<close>

definition ex_inc :: frame where
  "ex_inc =
     [(''Total Revenue'', [((2024, 3, 31), CNum 1000), ((2023, 12, 31), CNum 800)]),
      (''Gross Profit'', [((2024, 3, 31), CNum 400), ((2023, 12, 31), CNaN)]),
      (''Net Income'', [((2024, 3, 31), CNum 100), ((2023, 12, 31), CNum 0)])]"

definition ex_bal :: frame where
  "ex_bal =
     [(''Current Assets'', [((2024, 3, 31), CNum 80)]),
      (''Current Liabilities'', [((2024, 3, 31), CNum 100)]),
      (''Long Term Debt'', [((2024, 3, 31), CNum 7)])]"

definition ex_cf :: frame where
  "ex_cf =
     [(''Operating Cash Flow'', [((2024, 3, 31), CNum 50)]),
      (''CapitalExpenditure'', [((2024, 3, 31), CNum 70)])]"















section \<open>The coercion primitive and safe division\<close>











lemma bindE_Inr_iff: "bindE r f = Inr y \<longleftrightarrow> (\<exists>x. r = Inr x \<and> f x = Inr y)"
  by (cases r) (simp_all add: bindE_def)

lemma collect_lookup:
  "collect es = Inr m \<Longrightarrow> map_of es k = Some v \<Longrightarrow> \<exists>x. v = Inr x \<and> map_of m k = Some x"
proof (induction es arbitrary: m)
  case Nil
  then show ?case by simp
next
  case (Cons e es)
  obtain k' v' where e: "e = (k', v')" by (cases e)
  from Cons.prems(1) obtain x' m' where v': "v' = Inr x'" and m': "collect es = Inr m'"
    and m: "m = (k', x') # m'"
    by (auto simp: e bindE_Inr_iff)
  show ?case
  proof (cases "k = k'")
    case True
    then show ?thesis using Cons.prems(2) v' m by (simp add: e)
  next
    case False
    then have "map_of es k = Some v" using Cons.prems(2) by (simp add: e)
    from Cons.IH [OF m' this] show ?thesis using False m by simp
  qed
qed

lemma collect_keys: "collect es = Inr m \<Longrightarrow> map fst m = map fst es"
proof (induction es arbitrary: m)
  case Nil
  then show ?case by simp
next
  case (Cons e es)
  then show ?case by (cases e) (auto simp: bindE_Inr_iff)
qed

lemma jfmt_null: "jfmt x nd = Inr v \<Longrightarrow> v = JNull \<longleftrightarrow> x = None"
  by (cases x) (auto simp: jfmt_def fmt_def jnum_def bindE_Inr_iff)

lemma dec_eq_zero_True: "dec_eq_zero y = Inr True \<longleftrightarrow> y = Fin 0"
  by (cases y) auto

lemma div_dec_None_iff:
  "div_dec a b = Inr q \<Longrightarrow> q = None \<longleftrightarrow> a = None \<or> b = None \<or> b = Some (Fin 0)"
  by (cases a; cases b)
     (auto simp: div_dec_def bindE_Inr_iff dec_eq_zero_True split: if_splits)

lemma pct_None_iff: "pct q = Inr p \<Longrightarrow> p = None \<longleftrightarrow> q = None"
  by (cases q) (auto simp: pct_def bindE_Inr_iff)

lemma ratio_null:
  assumes "bindE (div_dec a b) (\<lambda>q. jfmt q nd) = Inr v"
  shows "v = JNull \<longleftrightarrow> a = None \<or> b = None \<or> b = Some (Fin 0)"
proof -
  from assms obtain q where q: "div_dec a b = Inr q" and v: "jfmt q nd = Inr v"
    by (auto simp: bindE_Inr_iff)
  show ?thesis using div_dec_None_iff [OF q] jfmt_null [OF v] by simp
qed

lemma percent_null:
  assumes "bindE (div_dec a b) (\<lambda>q. bindE (pct q) (\<lambda>p. jfmt p nd)) = Inr v"
  shows "v = JNull \<longleftrightarrow> a = None \<or> b = None \<or> b = Some (Fin 0)"
proof -
  from assms obtain q p where q: "div_dec a b = Inr q" and p: "pct q = Inr p"
    and v: "jfmt p nd = Inr v"
    by (auto simp: bindE_Inr_iff)
  show ?thesis using div_dec_None_iff [OF q] pct_None_iff [OF p] jfmt_null [OF v] by simp
qed

lemma build_metrics_lookup:
  assumes "build_metrics ds i = Inr m" and "k \<noteq> ''distressFlags''"
  shows "\<exists>f t m0. fcf i = Inr f \<and> totalDebt i = Inr t
           \<and> collect (metric_entries ds i f t) = Inr m0
           \<and> m = AList.update ''distressFlags'' (JList (distress_flags m0)) m0
           \<and> map_of m k = map_of m0 k"
  using assms by (auto simp: build_metrics_def bindE_Inr_iff update_conv')

lemma val_Inr: "\<exists>v. val d s = Inr v \<and> fin_opt v"
proof (cases s)
  case None
  then show ?thesis by (simp add: val_def fin_opt_def)
next
  case (Some ser)
  show ?thesis
  proof (cases "map_of ser d")
    case None
    then show ?thesis using Some by (simp add: val_def fin_opt_def)
  next
    case (Some c)
    then show ?thesis using \<open>s = Some ser\<close>
      by (cases c) (simp_all add: val_def fin_opt_def isna_def to_dec_safe_def bindE_def)
  qed
qed

lemma read_inputs_Inr:
  "\<exists>i. read_inputs inc_df bal_df cf_df d = Inr i
     \<and> fin_opt (totalRevenue i) \<and> fin_opt (grossProfit i) \<and> fin_opt (netIncome i)
     \<and> fin_opt (rd_expense i) \<and> fin_opt (cash i) \<and> fin_opt (shortDebt i)
     \<and> fin_opt (longDebt i) \<and> fin_opt (totalLiab i) \<and> fin_opt (equity i)
     \<and> fin_opt (currAssets i) \<and> fin_opt (currLiab i) \<and> fin_opt (opCF i)
     \<and> fin_opt (capex i)"
proof -
  obtain v1 where v1: "val d (get_first inc_df (aliases INC_FIELDS ''revenue'')) = Inr v1" "fin_opt v1"
    using val_Inr by blast
  obtain v2 where v2: "val d (get_first inc_df (aliases INC_FIELDS ''grossProfit'')) = Inr v2" "fin_opt v2"
    using val_Inr by blast
  obtain v3 where v3: "val d (get_first inc_df (aliases INC_FIELDS ''netIncome'')) = Inr v3" "fin_opt v3"
    using val_Inr by blast
  obtain v4 where v4: "val d (get_first inc_df (aliases INC_FIELDS ''rd'')) = Inr v4" "fin_opt v4"
    using val_Inr by blast
  obtain v5 where v5: "val d (get_first bal_df (aliases BAL_FIELDS ''cash'')) = Inr v5" "fin_opt v5"
    using val_Inr by blast
  obtain v6 where v6: "val d (get_first bal_df (aliases BAL_FIELDS ''shortDebt'')) = Inr v6" "fin_opt v6"
    using val_Inr by blast
  obtain v7 where v7: "val d (get_first bal_df (aliases BAL_FIELDS ''longDebt'')) = Inr v7" "fin_opt v7"
    using val_Inr by blast
  obtain v8 where v8: "val d (get_first bal_df (aliases BAL_FIELDS ''totalLiab'')) = Inr v8" "fin_opt v8"
    using val_Inr by blast
  obtain v9 where v9: "val d (get_first bal_df (aliases BAL_FIELDS ''equity'')) = Inr v9" "fin_opt v9"
    using val_Inr by blast
  obtain v10 where v10: "val d (get_first bal_df (aliases BAL_FIELDS ''currAssets'')) = Inr v10" "fin_opt v10"
    using val_Inr by blast
  obtain v11 where v11: "val d (get_first bal_df (aliases BAL_FIELDS ''currLiab'')) = Inr v11" "fin_opt v11"
    using val_Inr by blast
  obtain v12 where v12: "val d (get_first cf_df (aliases CF_FIELDS ''opCF'')) = Inr v12" "fin_opt v12"
    using val_Inr by blast
  obtain v13 where v13: "val d (get_first cf_df (aliases CF_FIELDS ''capex'')) = Inr v13" "fin_opt v13"
    using val_Inr by blast
  show ?thesis
    unfolding read_inputs_def
    using v1(2) v2(2) v3(2) v4(2) v5(2) v6(2) v7(2) v8(2) v9(2) v10(2) v11(2) v12(2) v13(2)
    by (simp add: v1(1) v2(1) v3(1) v4(1) v5(1) v6(1) v7(1) v8(1) v9(1) v10(1) v11(1) v12(1)
          v13(1) bindE_def)
qed

lemma div_dec_fin: "fin_opt a \<Longrightarrow> fin_opt b \<Longrightarrow> \<exists>q. div_dec a b = Inr q \<and> fin_opt q"
  by (auto simp: fin_opt_def div_dec_def bindE_def split: option.splits dec.splits)

lemma growth_pct_total: "float_bool p \<Longrightarrow> \<exists>g. growth_pct c p = Inr g"
  by (cases p; cases "fsub c p") (auto simp: growth_pct_def bindE_def)

lemma grow_key_result:
  assumes "grow_key s i j k rows = Inr rows'"
  shows "rows' = rows
         \<or> (\<exists>g. rows' = rows[i := (rows ! i)
                     \<lparr>metrics := AList.update (k @ s) (JNum g) (metrics (rows ! i))\<rparr>])"
  using assms
  by (auto simp: grow_key_def Let_def bindE_Inr_iff split: jval.splits if_splits)

lemma grow_key_total: "\<exists>rows'. grow_key s i j k rows = Inr rows'"
proof (cases "get (metrics (rows ! i)) k")
  case (JNum c)
  show ?thesis
  proof (cases "get (metrics (rows ! j)) k")
    case p: (JNum p)
    show ?thesis
    proof (cases "float_bool p")
      case True
      then obtain g where "growth_pct c p = Inr g" using growth_pct_total by blast
      then show ?thesis using JNum p True by (simp add: grow_key_def bindE_def)
    qed (simp add: grow_key_def JNum p)
  qed (simp_all add: grow_key_def JNum)
qed (simp_all add: grow_key_def)

lemma grow_key_length: "grow_key s i j k rows = Inr rows' \<Longrightarrow> length rows' = length rows"
  by (drule grow_key_result) auto

lemma grow_key_other: "grow_key s i j k rows = Inr rows' \<Longrightarrow> n \<noteq> i \<Longrightarrow> rows' ! n = rows ! n"
  by (drule grow_key_result) auto

lemma nth_update_metrics:
  "(rows[i := (rows ! i)\<lparr>metrics := m\<rparr>] ! n)\<lparr>metrics := x\<rparr> = (rows ! n)\<lparr>metrics := x\<rparr>"
proof (cases "i < length rows")
  case True
  then show ?thesis by (cases "n = i") simp_all
next
  case False
  then have "length rows \<le> i" by (simp add: not_less)
  then show ?thesis by (simp add: list_update_beyond)
qed

lemma grow_key_fields:
  "grow_key s i j k rows = Inr rows' \<Longrightarrow> (rows' ! n)\<lparr>metrics := x\<rparr> = (rows ! n)\<lparr>metrics := x\<rparr>"
  by (drule grow_key_result) (auto simp: nth_update_metrics)

lemma nth_update_lookup:
  "key \<noteq> K \<Longrightarrow>
   map_of (metrics (rows[i := (rows ! i)\<lparr>metrics := AList.update K v (metrics (rows ! i))\<rparr>] ! n)) key
     = map_of (metrics (rows ! n)) key"
proof (cases "i < length rows")
  case True
  assume "key \<noteq> K"
  then show ?thesis using True by (cases "n = i") (simp_all add: update_conv')
next
  case False
  then have "length rows \<le> i" by (simp add: not_less)
  then show ?thesis by (simp add: list_update_beyond)
qed

lemma grow_key_lookup:
  "grow_key s i j k rows = Inr rows' \<Longrightarrow> key \<noteq> k @ s \<Longrightarrow>
   map_of (metrics (rows' ! n)) key = map_of (metrics (rows ! n)) key"
  by (drule grow_key_result) (auto simp: nth_update_lookup)

lemma grow_key_target:
  assumes "grow_key s i j k rows = Inr rows'" and "i < length rows"
  shows "map_of (metrics (rows' ! i)) (k @ s) =
           (case (get (metrics (rows ! i)) k, get (metrics (rows ! j)) k) of
              (JNum c, JNum p) \<Rightarrow>
                if float_bool p then Some (JNum (projr (growth_pct c p)))
                else map_of (metrics (rows ! i)) (k @ s)
            | _ \<Rightarrow> map_of (metrics (rows ! i)) (k @ s))"
  using assms
  by (auto simp: grow_key_def Let_def bindE_Inr_iff update_conv' split: jval.splits if_splits)

lemma same_base_refl: "same_base rows rows"
  by (simp add: same_base_def)

lemma same_base_trans: "same_base a b \<Longrightarrow> same_base b c \<Longrightarrow> same_base a c"
  by (simp add: same_base_def)

lemma grow_key_same_base:
  "grow_key s i j k rows = Inr rows' \<Longrightarrow> k @ s \<in> set growth_keys \<Longrightarrow> same_base rows rows'"
proof -
  assume g: "grow_key s i j k rows = Inr rows'" and k: "k @ s \<in> set growth_keys"
  have "map_of (metrics (rows' ! n)) key = map_of (metrics (rows ! n)) key"
    if "key \<notin> set growth_keys" for n key
  proof -
    from that k have "key \<noteq> k @ s" by auto
    with g show ?thesis by (rule grow_key_lookup)
  qed
  then show ?thesis
    unfolding same_base_def using grow_key_length [OF g] grow_key_fields [OF g] by blast
qed

lemma same_base_get:
  "same_base rows rows' \<Longrightarrow> key \<notin> set growth_keys \<Longrightarrow>
   get (metrics (rows' ! n)) key = get (metrics (rows ! n)) key"
  by (simp add: same_base_def get_def)

lemma same_base_fiscalDate: "same_base rows rows' \<Longrightarrow> fiscalDate (rows' ! n) = fiscalDate (rows ! n)"
proof -
  assume "same_base rows rows'"
  then have "(rows' ! n)\<lparr>metrics := []\<rparr> = (rows ! n)\<lparr>metrics := []\<rparr>"
    by (simp add: same_base_def)
  then have "fiscalDate ((rows' ! n)\<lparr>metrics := []\<rparr>) = fiscalDate ((rows ! n)\<lparr>metrics := []\<rparr>)"
    by simp
  then show ?thesis by simp
qed

lemma qoq_total: "\<exists>rows'. qoq i rows = Inr rows'"
proof (cases "i + 1 < length rows")
  case True
  obtain r1 where r1: "grow_key ''_QoQ_growth_pct'' i (i + 1) ''totalRevenue'' rows = Inr r1"
    using grow_key_total by blast
  obtain r2 where "grow_key ''_QoQ_growth_pct'' i (i + 1) ''netIncome'' r1 = Inr r2"
    using grow_key_total by blast
  then show ?thesis using True r1 by (simp add: qoq_def bindE_def)
next
  case False
  then show ?thesis by (simp add: qoq_def)
qed

lemma qoq_cases:
  assumes "qoq i rows = Inr rows'"
  obtains "\<not> i + 1 < length rows" "rows' = rows"
  | r1 where "i + 1 < length rows"
      "grow_key ''_QoQ_growth_pct'' i (i + 1) ''totalRevenue'' rows = Inr r1"
      "grow_key ''_QoQ_growth_pct'' i (i + 1) ''netIncome'' r1 = Inr rows'"
  using assms by (auto simp: qoq_def bindE_Inr_iff split: if_splits)

lemma qoq_same_base: "qoq i rows = Inr rows' \<Longrightarrow> same_base rows rows'"
proof (erule qoq_cases)
  show "same_base rows rows'" if "rows' = rows"
    using that by (simp add: same_base_refl)
next
  fix r1
  assume a: "grow_key ''_QoQ_growth_pct'' i (i + 1) ''totalRevenue'' rows = Inr r1"
    and b: "grow_key ''_QoQ_growth_pct'' i (i + 1) ''netIncome'' r1 = Inr rows'"
  have "same_base rows r1"
    using a by (rule grow_key_same_base) (simp add: growth_keys_def)
  moreover have "same_base r1 rows'"
    using b by (rule grow_key_same_base) (simp add: growth_keys_def)
  ultimately show "same_base rows rows'" by (rule same_base_trans)
qed

lemma qoq_other: "qoq i rows = Inr rows' \<Longrightarrow> n \<noteq> i \<Longrightarrow> rows' ! n = rows ! n"
  by (erule qoq_cases) (auto simp: grow_key_other)

lemma yoy_cases:
  obtains "yoy bd i rows = rows"
  | y j r1 where "py_int (take 4 (fiscalDate (rows ! i))) = Inr y"
      "bd (py_str_int (y - 1) @ ''-'' @ drop 5 (fiscalDate (rows ! i))) = Some j"
      "grow_key ''_YoY_growth_pct'' i j ''totalRevenue'' rows = Inr r1"
      "grow_key ''_YoY_growth_pct'' i j ''netIncome'' r1 = Inr (yoy bd i rows)"
proof (cases "py_int (take 4 (fiscalDate (rows ! i)))")
  case (Inl e)
  then have "yoy bd i rows = rows" by (simp add: yoy_def)
  then show ?thesis by (rule that(1))
next
  case (Inr y)
  show ?thesis
  proof (cases "bd (py_str_int (y - 1) @ ''-'' @ drop 5 (fiscalDate (rows ! i)))")
    case None
    then have "yoy bd i rows = rows" using Inr by (simp add: yoy_def)
    then show ?thesis by (rule that(1))
  next
    case (Some j)
    obtain r1 where r1: "grow_key ''_YoY_growth_pct'' i j ''totalRevenue'' rows = Inr r1"
      using grow_key_total by blast
    obtain r2 where r2: "grow_key ''_YoY_growth_pct'' i j ''netIncome'' r1 = Inr r2"
      using grow_key_total by blast
    have "yoy bd i rows = r2" using Inr Some r1 r2 by (simp add: yoy_def)
    with r2 have "grow_key ''_YoY_growth_pct'' i j ''netIncome'' r1 = Inr (yoy bd i rows)"
      by simp
    with Inr Some r1 show ?thesis by (rule that(2))
  qed
qed

lemma yoy_same_base: "same_base rows (yoy bd i rows)"
proof (rule yoy_cases [of bd i rows])
  show "same_base rows (yoy bd i rows)" if "yoy bd i rows = rows"
    using that by (simp add: same_base_refl)
next
  fix j r1
  assume a: "grow_key ''_YoY_growth_pct'' i j ''totalRevenue'' rows = Inr r1"
    and b: "grow_key ''_YoY_growth_pct'' i j ''netIncome'' r1 = Inr (yoy bd i rows)"
  have "same_base rows r1"
    using a by (rule grow_key_same_base) (simp add: growth_keys_def)
  moreover have "same_base r1 (yoy bd i rows)"
    using b by (rule grow_key_same_base) (simp add: growth_keys_def)
  ultimately show "same_base rows (yoy bd i rows)" by (rule same_base_trans)
qed

lemma yoy_other: "n \<noteq> i \<Longrightarrow> yoy bd i rows ! n = rows ! n"
  by (rule yoy_cases [of bd i rows]) (auto simp: grow_key_other)

lemma growth_loop_total: "\<exists>rows'. growth_loop bd js rows = Inr rows'"
proof (induction js arbitrary: rows)
  case Nil
  show ?case by simp
next
  case (Cons i js)
  obtain r1 where "qoq i rows = Inr r1" using qoq_total by blast
  then show ?case using Cons [of "yoy bd i r1"] by (simp add: bindE_def)
qed

lemma growth_loop_frame:
  "growth_loop bd js rows = Inr rows' \<Longrightarrow>
   same_base rows rows' \<and> (\<forall>n. n \<notin> set js \<longrightarrow> rows' ! n = rows ! n)"
proof (induction js arbitrary: rows)
  case Nil
  then show ?case by (simp add: same_base_refl)
next
  case (Cons i js)
  from Cons.prems obtain r1 where r1: "qoq i rows = Inr r1"
    and rest: "growth_loop bd js (yoy bd i r1) = Inr rows'"
    by (auto simp: bindE_Inr_iff)
  from Cons.IH [OF rest] have sb: "same_base (yoy bd i r1) rows'"
    and oth: "\<And>n. n \<notin> set js \<Longrightarrow> rows' ! n = yoy bd i r1 ! n"
    by simp_all
  have "same_base rows (yoy bd i r1)"
    using qoq_same_base [OF r1] yoy_same_base by (rule same_base_trans)
  then have "same_base rows rows'" using sb by (rule same_base_trans)
  moreover have "rows' ! n = rows ! n" if "n \<notin> set (i # js)" for n
    using that oth [of n] yoy_other [of n i bd r1] qoq_other [OF r1, of n] by simp
  ultimately show ?case by blast
qed

lemma build_loop_rows:
  "build_loop c s f inc_df bal_df cf_df ds = Inr rows \<Longrightarrow>
   length rows = length ds
   \<and> (\<forall>n < length ds. \<exists>i m. read_inputs inc_df bal_df cf_df (ds ! n) = Inr i
          \<and> build_metrics (iso_date (ds ! n)) i = Inr m
          \<and> rows ! n = \<lparr>company = c, symbol = s, freq = f, fiscalDate = iso_date (ds ! n),
                          metrics = m, source = ''YahooFinance''\<rparr>)"
proof (induction ds arbitrary: rows)
  case Nil
  then show ?case by simp
next
  case (Cons d ds)
  from Cons.prems obtain i r rs where i: "read_inputs inc_df bal_df cf_df d = Inr i"
    and r: "build_row c s f d i = Inr r"
    and rs: "build_loop c s f inc_df bal_df cf_df ds = Inr rs"
    and rows: "rows = r # rs"
    by (auto simp: bindE_Inr_iff)
  from r obtain m where m: "build_metrics (iso_date d) i = Inr m"
    and r': "r = \<lparr>company = c, symbol = s, freq = f, fiscalDate = iso_date d,
                   metrics = m, source = ''YahooFinance''\<rparr>"
    by (auto simp: build_row_def bindE_Inr_iff)
  from Cons.IH [OF rs] have len: "length rs = length ds"
    and tl: "\<And>n. n < length ds \<Longrightarrow> \<exists>i m. read_inputs inc_df bal_df cf_df (ds ! n) = Inr i
          \<and> build_metrics (iso_date (ds ! n)) i = Inr m
          \<and> rs ! n = \<lparr>company = c, symbol = s, freq = f, fiscalDate = iso_date (ds ! n),
                          metrics = m, source = ''YahooFinance''\<rparr>"
    by simp_all
  have "\<exists>i m. read_inputs inc_df bal_df cf_df ((d # ds) ! n) = Inr i
          \<and> build_metrics (iso_date ((d # ds) ! n)) i = Inr m
          \<and> rows ! n = \<lparr>company = c, symbol = s, freq = f, fiscalDate = iso_date ((d # ds) ! n),
                          metrics = m, source = ''YahooFinance''\<rparr>"
    if "n < length (d # ds)" for n
  proof (cases n)
    case 0
    then show ?thesis using i m r' rows by simp
  next
    case (Suc k)
    then have "k < length ds" using that by simp
    from tl [OF this] show ?thesis using Suc rows by simp
  qed
  then show ?case using len rows by simp
qed

lemma add_growth_same_base: "add_growth rows = Inr out \<Longrightarrow> same_base rows out"
  unfolding add_growth_def by (drule growth_loop_frame) simp

lemma add_growth_total: "\<exists>out. add_growth rows = Inr out"
  unfolding add_growth_def by (rule growth_loop_total)

lemma built_row:
  assumes "build_rows_from_dfs c s inc_df bal_df cf_df f = Inr out" and "n < length out"
  shows "\<exists>i fv tv m0.
    length out = length (aligned_dates (resolved_series inc_df bal_df cf_df))
    \<and> read_inputs inc_df bal_df cf_df (aligned_dates (resolved_series inc_df bal_df cf_df) ! n)
        = Inr i
    \<and> fcf i = Inr fv \<and> totalDebt i = Inr tv
    \<and> collect (metric_entries (iso_date (aligned_dates (resolved_series inc_df bal_df cf_df) ! n))
          i fv tv) = Inr m0
    \<and> fiscalDate (out ! n) = iso_date (aligned_dates (resolved_series inc_df bal_df cf_df) ! n)
    \<and> (\<forall>key. key \<notin> set growth_keys \<longrightarrow> key \<noteq> ''distressFlags'' \<longrightarrow>
          map_of (metrics (out ! n)) key = map_of m0 key)
    \<and> map_of (metrics (out ! n)) ''distressFlags'' = Some (JList (distress_flags m0))"
proof -
  let ?ds = "aligned_dates (resolved_series inc_df bal_df cf_df)"
  from assms(1) obtain rows where rows: "build_loop c s f inc_df bal_df cf_df ?ds = Inr rows"
    and out: "add_growth rows = Inr out"
    by (auto simp: build_rows_from_dfs_def bindE_Inr_iff)
  have sb: "same_base rows out" using out by (rule add_growth_same_base)
  then have len: "length out = length rows" by (simp add: same_base_def)
  from build_loop_rows [OF rows] have len2: "length rows = length ?ds"
    and ex: "\<And>n. n < length ?ds \<Longrightarrow> \<exists>i m. read_inputs inc_df bal_df cf_df (?ds ! n) = Inr i
          \<and> build_metrics (iso_date (?ds ! n)) i = Inr m
          \<and> rows ! n = \<lparr>company = c, symbol = s, freq = f, fiscalDate = iso_date (?ds ! n),
                          metrics = m, source = ''YahooFinance''\<rparr>"
    by simp_all
  have "n < length ?ds" using assms(2) len len2 by simp
  from ex [OF this] obtain i m where i: "read_inputs inc_df bal_df cf_df (?ds ! n) = Inr i"
    and m: "build_metrics (iso_date (?ds ! n)) i = Inr m"
    and rn: "rows ! n = \<lparr>company = c, symbol = s, freq = f, fiscalDate = iso_date (?ds ! n),
                          metrics = m, source = ''YahooFinance''\<rparr>"
    by blast
  from m obtain fv tv m0 where fv: "fcf i = Inr fv" and tv: "totalDebt i = Inr tv"
    and m0: "collect (metric_entries (iso_date (?ds ! n)) i fv tv) = Inr m0"
    and mm: "m = AList.update ''distressFlags'' (JList (distress_flags m0)) m0"
    by (auto simp: build_metrics_def bindE_Inr_iff)
  have fd: "fiscalDate (out ! n) = iso_date (?ds ! n)"
    using same_base_fiscalDate [OF sb, of n] rn by simp
  have base: "map_of (metrics (out ! n)) key = map_of m key" if "key \<notin> set growth_keys" for key
    using sb that rn by (simp add: same_base_def)
  have k1: "map_of (metrics (out ! n)) key = map_of m0 key"
    if "key \<notin> set growth_keys" "key \<noteq> ''distressFlags''" for key
    using base [OF that(1)] that(2) by (simp add: mm update_conv')
  have k2: "map_of (metrics (out ! n)) ''distressFlags'' = Some (JList (distress_flags m0))"
    using base [of "''distressFlags''"] by (simp add: mm update_conv' growth_keys_def)
  show ?thesis
    using i fv tv m0 fd k1 k2 len len2 by auto
qed

lemmas string_eq_simps =
  list.inject char.inject simp_thms if_True if_False list.distinct refl

lemma metric_entries_lookup:
  "map_of (metric_entries ds i fv tv) ''grossMargin_pct''
     = Some (bindE (div_dec (grossProfit i) (totalRevenue i)) (\<lambda>q. bindE (pct q) (\<lambda>p. jfmt p 2)))"
  "map_of (metric_entries ds i fv tv) ''netMargin_pct''
     = Some (bindE (div_dec (netIncome i) (totalRevenue i)) (\<lambda>q. bindE (pct q) (\<lambda>p. jfmt p 2)))"
  "map_of (metric_entries ds i fv tv) ''debtToEquity''
     = Some (bindE (div_dec (totalLiab i) (equity i)) (\<lambda>q. jfmt q 4))"
  "map_of (metric_entries ds i fv tv) ''currentRatio''
     = Some (bindE (div_dec (currAssets i) (currLiab i)) (\<lambda>q. jfmt q 4))"
  "map_of (metric_entries ds i fv tv) ''cashRatio''
     = Some (bindE (div_dec (cash i) (currLiab i)) (\<lambda>q. jfmt q 4))"
  "map_of (metric_entries ds i fv tv) ''rdIntensity_pct''
     = Some (bindE (div_dec (rd_expense i) (totalRevenue i)) (\<lambda>q. bindE (pct q) (\<lambda>p. jfmt p 2)))"
  "map_of (metric_entries ds i fv tv) ''capexToRevenue_pct''
     = Some (bindE (div_dec (capex i) (totalRevenue i)) (\<lambda>q. bindE (pct q) (\<lambda>p. jfmt p 2)))"
  "map_of (metric_entries ds i fv tv) ''totalDebt''
     = Some (if tv \<noteq> None then jfmt tv 2 else Inr JNull)"
  "map_of (metric_entries ds i fv tv) ''freeCashFlow'' = Some (jfmt fv 2)"
  "map_of (metric_entries ds i fv tv) ''totalRevenue'' = Some (jfmt (totalRevenue i) 2)"
  "map_of (metric_entries ds i fv tv) ''netIncome'' = Some (jfmt (netIncome i) 2)"
  unfolding metric_entries_def
  by (simp_all only: map_of.simps fst_conv snd_conv fun_upd_apply string_eq_simps)

lemma not_growth_keys:
  "''grossMargin_pct'' \<notin> set growth_keys"
  "''netMargin_pct'' \<notin> set growth_keys"
  "''debtToEquity'' \<notin> set growth_keys"
  "''currentRatio'' \<notin> set growth_keys"
  "''cashRatio'' \<notin> set growth_keys"
  "''rdIntensity_pct'' \<notin> set growth_keys"
  "''capexToRevenue_pct'' \<notin> set growth_keys"
  "''totalDebt'' \<notin> set growth_keys"
  "''freeCashFlow'' \<notin> set growth_keys"
  "''totalRevenue'' \<notin> set growth_keys"
  "''netIncome'' \<notin> set growth_keys"
  unfolding growth_keys_def
  by (simp_all only: list.set insert_iff empty_iff string_eq_simps)

lemma not_flags_key:
  "''grossMargin_pct'' \<noteq> ''distressFlags''"
  "''netMargin_pct'' \<noteq> ''distressFlags''"
  "''debtToEquity'' \<noteq> ''distressFlags''"
  "''currentRatio'' \<noteq> ''distressFlags''"
  "''cashRatio'' \<noteq> ''distressFlags''"
  "''rdIntensity_pct'' \<noteq> ''distressFlags''"
  "''capexToRevenue_pct'' \<noteq> ''distressFlags''"
  "''totalDebt'' \<noteq> ''distressFlags''"
  "''freeCashFlow'' \<noteq> ''distressFlags''"
  "''totalRevenue'' \<noteq> ''distressFlags''"
  "''netIncome'' \<noteq> ''distressFlags''"
  by (simp_all only: string_eq_simps)

lemma entry_lookup:
  assumes "collect (metric_entries ds i fv tv) = Inr m0"
    and "map_of (metric_entries ds i fv tv) k = Some e"
  obtains x where "e = Inr x" "map_of m0 k = Some x"
  using collect_lookup [OF assms] by blast

section \<open>The example tables, evaluated\<close>

lemma ex_build:
  "\<exists>out. build_rows_from_dfs ''ACME'' ''ACM'' ex_inc ex_bal ex_cf ''Quarter'' = Inr out
     \<and> length out = 2"
proof -
  have "case build_rows_from_dfs ''ACME'' ''ACM'' ex_inc ex_bal ex_cf ''Quarter'' of
          Inl e \<Rightarrow> False | Inr out \<Rightarrow> length out = 2"
    by code_simp
  then show ?thesis by (auto split: sum.splits)
qed

lemma ex_dates:
  "aligned_dates (resolved_series ex_inc ex_bal ex_cf) = [(2024, 3, 31), (2023, 12, 31)]"
  by code_simp

lemma ex_inputs0:
  "read_inputs ex_inc ex_bal ex_cf (2024, 3, 31) =
     Inr \<lparr>totalRevenue = Some (Fin 1000), grossProfit = Some (Fin 400),
          netIncome = Some (Fin 100), rd_expense = None, cash = None, shortDebt = None,
          longDebt = Some (Fin 7), totalLiab = None, equity = None,
          currAssets = Some (Fin 80), currLiab = Some (Fin 100), opCF = Some (Fin 50),
          capex = Some (Fin 70)\<rparr>"
  by code_simp

lemma ex_inputs1:
  "read_inputs ex_inc ex_bal ex_cf (2023, 12, 31) =
     Inr \<lparr>totalRevenue = Some (Fin 800), grossProfit = None,
          netIncome = Some (Fin 0), rd_expense = None, cash = None, shortDebt = None,
          longDebt = None, totalLiab = None, equity = None,
          currAssets = None, currLiab = None, opCF = None, capex = None\<rparr>"
  by code_simp

section \<open>Derived metrics of a built row\<close>

lemma percent_entry:
  assumes "collect (metric_entries ds i fv tv) = Inr m0"
    and "map_of (metric_entries ds i fv tv) k
           = Some (bindE (div_dec a b) (\<lambda>q. bindE (pct q) (\<lambda>p. jfmt p 2)))"
  shows "null_iff_missing m0 k a b"
proof -
  from assms obtain x where x: "bindE (div_dec a b) (\<lambda>q. bindE (pct q) (\<lambda>p. jfmt p 2)) = Inr x"
    and m: "map_of m0 k = Some x"
    by (rule entry_lookup)
  show ?thesis unfolding null_iff_missing_def using m percent_null [OF x] by simp
qed

lemma ratio_entry:
  assumes "collect (metric_entries ds i fv tv) = Inr m0"
    and "map_of (metric_entries ds i fv tv) k = Some (bindE (div_dec a b) (\<lambda>q. jfmt q 4))"
  shows "null_iff_missing m0 k a b"
proof -
  from assms obtain x where x: "bindE (div_dec a b) (\<lambda>q. jfmt q 4) = Inr x"
    and m: "map_of m0 k = Some x"
    by (rule entry_lookup)
  show ?thesis unfolding null_iff_missing_def using m ratio_null [OF x] by simp
qed

lemma null_iff_missing_cong:
  "map_of m k = map_of m0 k \<Longrightarrow> null_iff_missing m0 k a b \<Longrightarrow> null_iff_missing m k a b"
  by (simp add: null_iff_missing_def)

text \<open>
  Claim C1. For every statement tables and every period, the row builder reads its
  inputs and none of its seven safe divisions raises. In every built row each of the
  seven divided metrics is present, and it is \<^verbatim>\<open>None\<close> if and only if its numerator is
  missing or its denominator is missing or zero.
\<close>

theorem C1_derived_null_iff_missing:
  "(\<exists>i. read_inputs inc_df bal_df cf_df d = Inr i
      \<and> (\<exists>q. div_dec (grossProfit i) (totalRevenue i) = Inr q)
      \<and> (\<exists>q. div_dec (netIncome i) (totalRevenue i) = Inr q)
      \<and> (\<exists>q. div_dec (totalLiab i) (equity i) = Inr q)
      \<and> (\<exists>q. div_dec (currAssets i) (currLiab i) = Inr q)
      \<and> (\<exists>q. div_dec (cash i) (currLiab i) = Inr q)
      \<and> (\<exists>q. div_dec (rd_expense i) (totalRevenue i) = Inr q)
      \<and> (\<exists>q. div_dec (capex i) (totalRevenue i) = Inr q))
   \<and> (build_rows_from_dfs c s inc_df bal_df cf_df f = Inr out \<and> n < length out \<longrightarrow>
        (\<exists>i. read_inputs inc_df bal_df cf_df
                (aligned_dates (resolved_series inc_df bal_df cf_df) ! n) = Inr i
           \<and> null_iff_missing (metrics (out ! n)) ''grossMargin_pct''
                (grossProfit i) (totalRevenue i)
           \<and> null_iff_missing (metrics (out ! n)) ''netMargin_pct''
                (netIncome i) (totalRevenue i)
           \<and> null_iff_missing (metrics (out ! n)) ''debtToEquity'' (totalLiab i) (equity i)
           \<and> null_iff_missing (metrics (out ! n)) ''currentRatio''
                (currAssets i) (currLiab i)
           \<and> null_iff_missing (metrics (out ! n)) ''cashRatio'' (cash i) (currLiab i)
           \<and> null_iff_missing (metrics (out ! n)) ''rdIntensity_pct''
                (rd_expense i) (totalRevenue i)
           \<and> null_iff_missing (metrics (out ! n)) ''capexToRevenue_pct''
                (capex i) (totalRevenue i)))"
proof (intro conjI impI)
  obtain i where i: "read_inputs inc_df bal_df cf_df d = Inr i"
    and fin: "fin_opt (totalRevenue i)" "fin_opt (grossProfit i)" "fin_opt (netIncome i)"
      "fin_opt (rd_expense i)" "fin_opt (cash i)" "fin_opt (totalLiab i)" "fin_opt (equity i)"
      "fin_opt (currAssets i)" "fin_opt (currLiab i)" "fin_opt (capex i)"
    using read_inputs_Inr [of inc_df bal_df cf_df d] by blast
  show "\<exists>i. read_inputs inc_df bal_df cf_df d = Inr i
      \<and> (\<exists>q. div_dec (grossProfit i) (totalRevenue i) = Inr q)
      \<and> (\<exists>q. div_dec (netIncome i) (totalRevenue i) = Inr q)
      \<and> (\<exists>q. div_dec (totalLiab i) (equity i) = Inr q)
      \<and> (\<exists>q. div_dec (currAssets i) (currLiab i) = Inr q)
      \<and> (\<exists>q. div_dec (cash i) (currLiab i) = Inr q)
      \<and> (\<exists>q. div_dec (rd_expense i) (totalRevenue i) = Inr q)
      \<and> (\<exists>q. div_dec (capex i) (totalRevenue i) = Inr q)"
    using i fin by (meson div_dec_fin)
next
  assume "build_rows_from_dfs c s inc_df bal_df cf_df f = Inr out \<and> n < length out"
  then have b: "build_rows_from_dfs c s inc_df bal_df cf_df f = Inr out" and n: "n < length out"
    by simp_all
  let ?d = "aligned_dates (resolved_series inc_df bal_df cf_df) ! n"
  from b n obtain i fv tv m0 where i: "read_inputs inc_df bal_df cf_df ?d = Inr i"
    and m0: "collect (metric_entries (iso_date ?d) i fv tv) = Inr m0"
    and base: "\<And>key. key \<notin> set growth_keys \<Longrightarrow> key \<noteq> ''distressFlags'' \<Longrightarrow>
                 map_of (metrics (out ! n)) key = map_of m0 key"
    using built_row [OF b n] by blast
  have 1: "null_iff_missing (metrics (out ! n)) ''grossMargin_pct'' (grossProfit i) (totalRevenue i)"
    by (rule null_iff_missing_cong
          [OF base [OF not_growth_keys(1) not_flags_key(1)]
              percent_entry [OF m0 metric_entries_lookup(1)]])
  have 2: "null_iff_missing (metrics (out ! n)) ''netMargin_pct'' (netIncome i) (totalRevenue i)"
    by (rule null_iff_missing_cong
          [OF base [OF not_growth_keys(2) not_flags_key(2)]
              percent_entry [OF m0 metric_entries_lookup(2)]])
  have 3: "null_iff_missing (metrics (out ! n)) ''debtToEquity'' (totalLiab i) (equity i)"
    by (rule null_iff_missing_cong
          [OF base [OF not_growth_keys(3) not_flags_key(3)]
              ratio_entry [OF m0 metric_entries_lookup(3)]])
  have 4: "null_iff_missing (metrics (out ! n)) ''currentRatio'' (currAssets i) (currLiab i)"
    by (rule null_iff_missing_cong
          [OF base [OF not_growth_keys(4) not_flags_key(4)]
              ratio_entry [OF m0 metric_entries_lookup(4)]])
  have 5: "null_iff_missing (metrics (out ! n)) ''cashRatio'' (cash i) (currLiab i)"
    by (rule null_iff_missing_cong
          [OF base [OF not_growth_keys(5) not_flags_key(5)]
              ratio_entry [OF m0 metric_entries_lookup(5)]])
  have 6: "null_iff_missing (metrics (out ! n)) ''rdIntensity_pct'' (rd_expense i) (totalRevenue i)"
    by (rule null_iff_missing_cong
          [OF base [OF not_growth_keys(6) not_flags_key(6)]
              percent_entry [OF m0 metric_entries_lookup(6)]])
  have 7: "null_iff_missing (metrics (out ! n)) ''capexToRevenue_pct'' (capex i) (totalRevenue i)"
    by (rule null_iff_missing_cong
          [OF base [OF not_growth_keys(7) not_flags_key(7)]
              percent_entry [OF m0 metric_entries_lookup(7)]])
  show "\<exists>i. read_inputs inc_df bal_df cf_df ?d = Inr i
           \<and> null_iff_missing (metrics (out ! n)) ''grossMargin_pct''
                (grossProfit i) (totalRevenue i)
           \<and> null_iff_missing (metrics (out ! n)) ''netMargin_pct''
                (netIncome i) (totalRevenue i)
           \<and> null_iff_missing (metrics (out ! n)) ''debtToEquity'' (totalLiab i) (equity i)
           \<and> null_iff_missing (metrics (out ! n)) ''currentRatio''
                (currAssets i) (currLiab i)
           \<and> null_iff_missing (metrics (out ! n)) ''cashRatio'' (cash i) (currLiab i)
           \<and> null_iff_missing (metrics (out ! n)) ''rdIntensity_pct''
                (rd_expense i) (totalRevenue i)
           \<and> null_iff_missing (metrics (out ! n)) ''capexToRevenue_pct''
                (capex i) (totalRevenue i)"
    using i 1 2 3 4 5 6 7 by blast
qed

theorem C1_derived_null_iff_missing_witness:
  "\<exists>out i. build_rows_from_dfs ''ACME'' ''ACM'' ex_inc ex_bal ex_cf ''Quarter'' = Inr out
     \<and> 1 < length out
     \<and> read_inputs ex_inc ex_bal ex_cf
          (aligned_dates (resolved_series ex_inc ex_bal ex_cf) ! 1) = Inr i
     \<and> null_iff_missing (metrics (out ! 1)) ''grossMargin_pct'' (grossProfit i) (totalRevenue i)
     \<and> null_iff_missing (metrics (out ! 1)) ''currentRatio'' (currAssets i) (currLiab i)"
proof -
  obtain out
    where out: "build_rows_from_dfs ''ACME'' ''ACM'' ex_inc ex_bal ex_cf ''Quarter'' = Inr out"
      and len: "1 < length out"
    using ex_build by auto
  from out len
    C1_derived_null_iff_missing
      [of ex_inc ex_bal ex_cf "(2024, 3, 31)" "''ACME''" "''ACM''" "''Quarter''" out 1]
  show ?thesis by blast
qed

section \<open>Total debt, free cash flow and the distress flags\<close>


lemma jfmt_None: "jfmt None nd = Inr JNull"
  by (simp add: jfmt_def fmt_def jnum_def bindE_def)



text \<open>
  Claim C3. In every built row \<^verbatim>\<open>freeCashFlow\<close> is present; it is \<^verbatim>\<open>None\<close> if and only if
  the operating cash flow or the capital expenditures are missing at that period, and
  when both are there it is the formatted decimal difference of the two.
\<close>

theorem C3_freeCashFlow:
  "build_rows_from_dfs c s inc_df bal_df cf_df f = Inr out \<and> n < length out \<longrightarrow>
     (\<exists>i v. read_inputs inc_df bal_df cf_df
               (aligned_dates (resolved_series inc_df bal_df cf_df) ! n) = Inr i
        \<and> map_of (metrics (out ! n)) ''freeCashFlow'' = Some v
        \<and> (v = JNull \<longleftrightarrow> opCF i = None \<or> capex i = None)
        \<and> (\<forall>a b. opCF i = Some a \<and> capex i = Some b \<longrightarrow>
              (\<exists>t. dec_sub a b = Inr t \<and> jfmt (Some t) 2 = Inr v)))"
proof
  assume "build_rows_from_dfs c s inc_df bal_df cf_df f = Inr out \<and> n < length out"
  then have b: "build_rows_from_dfs c s inc_df bal_df cf_df f = Inr out" and n: "n < length out"
    by simp_all
  let ?d = "aligned_dates (resolved_series inc_df bal_df cf_df) ! n"
  from b n obtain i fv tv m0 where i: "read_inputs inc_df bal_df cf_df ?d = Inr i"
    and fv: "fcf i = Inr fv"
    and m0: "collect (metric_entries (iso_date ?d) i fv tv) = Inr m0"
    and base: "\<And>key. key \<notin> set growth_keys \<Longrightarrow> key \<noteq> ''distressFlags'' \<Longrightarrow>
                 map_of (metrics (out ! n)) key = map_of m0 key"
    using built_row [OF b n] by blast
  note e = metric_entries_lookup(9) [of "iso_date ?d" i fv tv]
  from m0 e obtain v where v: "jfmt fv 2 = Inr v" and mv: "map_of m0 ''freeCashFlow'' = Some v"
    by (rule entry_lookup)
  have look: "map_of (metrics (out ! n)) ''freeCashFlow'' = Some v"
    using base [OF not_growth_keys(9) not_flags_key(9)] mv by simp
  have nul: "v = JNull \<longleftrightarrow> opCF i = None \<or> capex i = None"
    using fv jfmt_null [OF v]
    by (auto simp: fcf_def bindE_Inr_iff split: option.splits)
  have val: "\<forall>a b. opCF i = Some a \<and> capex i = Some b \<longrightarrow>
              (\<exists>t. dec_sub a b = Inr t \<and> jfmt (Some t) 2 = Inr v)"
    using fv v by (auto simp: fcf_def bindE_Inr_iff)
  show "\<exists>i v. read_inputs inc_df bal_df cf_df ?d = Inr i
        \<and> map_of (metrics (out ! n)) ''freeCashFlow'' = Some v
        \<and> (v = JNull \<longleftrightarrow> opCF i = None \<or> capex i = None)
        \<and> (\<forall>a b. opCF i = Some a \<and> capex i = Some b \<longrightarrow>
              (\<exists>t. dec_sub a b = Inr t \<and> jfmt (Some t) 2 = Inr v))"
    by (intro exI conjI) (rule i, rule look, rule nul, rule val)
qed

theorem C3_freeCashFlow_witness:
  "\<exists>out. build_rows_from_dfs ''ACME'' ''ACM'' ex_inc ex_bal ex_cf ''Quarter'' = Inr out
     \<and> map_of (metrics (out ! 0)) ''freeCashFlow'' = Some (JNum (FNum (- 20)))
     \<and> map_of (metrics (out ! 1)) ''freeCashFlow'' = Some JNull"
proof -
  obtain out
    where out: "build_rows_from_dfs ''ACME'' ''ACM'' ex_inc ex_bal ex_cf ''Quarter'' = Inr out"
      and len: "length out = 2"
    using ex_build by blast
  have diff: "dec_sub (Fin 50) (Fin 70) = Inr (Fin (- 20))"
    by code_simp
  have fmt20: "jfmt (Some (Fin (- 20))) 2 = Inr (JNum (FNum (- 20)))"
    by code_simp
  have "map_of (metrics (out ! 0)) ''freeCashFlow'' = Some (JNum (FNum (- 20)))"
    using C3_freeCashFlow [of "''ACME''" "''ACM''" ex_inc ex_bal ex_cf "''Quarter''" out 0]
      out len diff fmt20
    by (auto simp: ex_dates ex_inputs0)
  moreover have "map_of (metrics (out ! 1)) ''freeCashFlow'' = Some JNull"
    using C3_freeCashFlow [of "''ACME''" "''ACM''" ex_inc ex_bal ex_cf "''Quarter''" out 1]
      out len
    by (auto simp: ex_dates ex_inputs1)
  ultimately show ?thesis using out by blast
qed






end
